theory Spec2Isabelle
  imports Main
begin

section \<open>JavaScript values and the built-ins the two extensions call\<close>

text \<open>
  Payloads of session entries and tool inputs are typed \<^verbatim>\<open>unknown\<close> in the source, so
  they are modelled as JSON-like values. An object is the list of its own enumerable
  string-keyed properties, in enumeration order, keys distinct. Numbers are restricted to
  the integer-valued ones (printed by JavaScript in plain decimal below \<open>10^21\<close>);
  cyclic values, BigInt, functions and \<^verbatim>\<open>toJSON\<close> methods are outside the model.
\<close>

datatype jsval =
    JUndefined
  | JNull
  | JBool bool
  | JNum int
  | JStr string
  | JArr "jsval list"
  | JObj "(string \<times> jsval) list"

text \<open>\<^verbatim>\<open>obj.key\<close> on a record: the property's value, \<^verbatim>\<open>undefined\<close> when absent.\<close>

definition getProp :: "(string \<times> jsval) list \<Rightarrow> string \<Rightarrow> jsval" where
  "getProp props key = (case map_of props key of None \<Rightarrow> JUndefined | Some v \<Rightarrow> v)"

text \<open>
  \<^verbatim>\<open>v?.key\<close>: \<^verbatim>\<open>undefined\<close> on \<^verbatim>\<open>undefined\<close> and \<^verbatim>\<open>null\<close>, the property on an
  object. Primitives and arrays have no property of the names read here
  (\<^verbatim>\<open>mode\<close>), so the read gives \<^verbatim>\<open>undefined\<close>.
\<close>

fun optMember :: "jsval \<Rightarrow> string \<Rightarrow> jsval" where
  "optMember (JObj props) key = getProp props key"
| "optMember _ key = JUndefined"

subsection \<open>\<^verbatim>\<open>Number.prototype.toString\<close> and \<^verbatim>\<open>String.prototype.padStart\<close>\<close>

definition digitChar :: "nat \<Rightarrow> char" where
  "digitChar d = char_of (48 + d)"

fun natToString :: "nat \<Rightarrow> string" where
  "natToString n =
     (if n < 10 then [digitChar n] else natToString (n div 10) @ [digitChar (n mod 10)])"

definition numberToString :: "int \<Rightarrow> string" where
  "numberToString i = (if i < 0 then ''-'' @ natToString (nat (- i)) else natToString (nat i))"

text \<open>
  \<^verbatim>\<open>s.padStart(targetLength, fill)\<close>: \<open>s\<close> itself when it is long enough or the
  filler is empty, otherwise the filler repeated and cut to the missing length, then \<open>s\<close>.
\<close>

definition padStart :: "nat \<Rightarrow> string \<Rightarrow> string \<Rightarrow> string" where
  "padStart targetLength fill s =
     (if targetLength \<le> length s \<or> fill = [] then s
      else take (targetLength - length s) (concat (replicate (targetLength - length s) fill)) @ s)"

subsection \<open>\<^verbatim>\<open>JSON.stringify(value, null, gap)\<close>\<close>

definition hexChar :: "nat \<Rightarrow> char" where
  "hexChar d = (if d < 10 then char_of (48 + d) else char_of (87 + d))"

definition quoteChar :: "char \<Rightarrow> string" where
  "quoteChar c =
    (if c = CHR 0x08 then [CHR 0x5C, CHR ''b'']
     else if c = CHR 0x09 then [CHR 0x5C, CHR ''t'']
     else if c = CHR 0x0A then [CHR 0x5C, CHR ''n'']
     else if c = CHR 0x0C then [CHR 0x5C, CHR ''f'']
     else if c = CHR 0x0D then [CHR 0x5C, CHR ''r'']
     else if c = CHR 0x22 then [CHR 0x5C, CHR 0x22]
     else if c = CHR 0x5C then [CHR 0x5C, CHR 0x5C]
     else if (of_char c :: nat) < 32
       then [CHR 0x5C, CHR ''u'', CHR ''0'', CHR ''0'',
             hexChar (of_char c div 16), hexChar (of_char c mod 16)]
     else [c])"

definition QuoteJSONString :: "string \<Rightarrow> string" where
  "QuoteJSONString s = [CHR 0x22] @ concat (map quoteChar s) @ [CHR 0x22]"

fun joinWith :: "string \<Rightarrow> string list \<Rightarrow> string" where
  "joinWith sep [] = []"
| "joinWith sep [x] = x"
| "joinWith sep (x # y # ys) = x @ sep @ joinWith sep (y # ys)"

text \<open>
  The serialisation of ECMAScript's \<^verbatim>\<open>SerializeJSONProperty\<close>: \<open>None\<close> is
  \<^verbatim>\<open>undefined\<close>. A property whose value is \<^verbatim>\<open>undefined\<close> is left out of an object
  and printed as \<^verbatim>\<open>null\<close> in an array.
\<close>

fun SerializeJSONProperty :: "string \<Rightarrow> string \<Rightarrow> jsval \<Rightarrow> string option" where
  "SerializeJSONProperty gap indent JUndefined = None"
| "SerializeJSONProperty gap indent JNull = Some ''null''"
| "SerializeJSONProperty gap indent (JBool b) = Some (if b then ''true'' else ''false'')"
| "SerializeJSONProperty gap indent (JNum n) = Some (numberToString n)"
| "SerializeJSONProperty gap indent (JStr s) = Some (QuoteJSONString s)"
| "SerializeJSONProperty gap indent (JArr xs) =
    (let stepback = indent; indent' = indent @ gap;
         partial = map (\<lambda>v. case SerializeJSONProperty gap indent' v of
                               None \<Rightarrow> ''null'' | Some str \<Rightarrow> str) xs
     in Some (if partial = [] then ''[]''
              else if gap = [] then ''['' @ joinWith '','' partial @ '']''
              else ''['' @ [CHR 0x0A] @ indent'
                   @ joinWith ('','' @ [CHR 0x0A] @ indent') partial
                   @ [CHR 0x0A] @ stepback @ '']''))"
| "SerializeJSONProperty gap indent (JObj ps) =
    (let stepback = indent; indent' = indent @ gap;
         partial = concat (map (\<lambda>(k, v). case SerializeJSONProperty gap indent' v of
                                   None \<Rightarrow> []
                                 | Some str \<Rightarrow>
                                     [QuoteJSONString k @ '':''
                                      @ (if gap = [] then [] else '' '') @ str]) ps)
     in Some (if partial = [] then ''{}''
              else if gap = [] then ''{'' @ joinWith '','' partial @ ''}''
              else ''{'' @ [CHR 0x0A] @ indent'
                   @ joinWith ('','' @ [CHR 0x0A] @ indent') partial
                   @ [CHR 0x0A] @ stepback @ ''}''))"

text \<open>\<^verbatim>\<open>JSON.stringify(value, null, 2)\<close>: the gap is two spaces.\<close>

definition JSON_stringify_2 :: "jsval \<Rightarrow> string option" where
  "JSON_stringify_2 v = SerializeJSONProperty ''  '' [] v"

section \<open>The host: context, session entries, UI surface\<close>

text \<open>
  A session entry as the extension reads it: its \<^verbatim>\<open>type\<close>, and for a custom entry the
  \<^verbatim>\<open>customType\<close> tag and the \<^verbatim>\<open>data\<close> payload (\<^verbatim>\<open>undefined\<close> when absent).
\<close>

record SessionEntry =
  entryType :: string
  customType :: "string option"
  data :: jsval

text \<open>
  What a handler reads from its \<^verbatim>\<open>ExtensionContext\<close>: \<^verbatim>\<open>ctx.hasUI\<close>, the value
  \<^verbatim>\<open>ctx.ui.confirm(title, body)\<close> resolves to, \<^verbatim>\<open>ctx.ui.theme.fg(style, text)\<close>, and
  \<^verbatim>\<open>ctx.sessionManager.getBranch()\<close>.
\<close>

record ExtensionContext =
  hasUI :: bool
  confirm :: "string \<Rightarrow> string \<Rightarrow> bool"
  fg :: "string \<Rightarrow> string \<Rightarrow> string"
  getBranch :: "SessionEntry list"

text \<open>
  What the handlers do to the host's UI: the named status fragments, the notifications
  shown (message, severity) and the confirmation dialogs shown (title, body), in order.
\<close>

record HostUI =
  status :: "string \<rightharpoonup> string"
  notifications :: "(string \<times> string) list"
  dialogs :: "(string \<times> string) list"

definition setStatus :: "string \<Rightarrow> string option \<Rightarrow> 'a HostUI_scheme \<Rightarrow> 'a HostUI_scheme" where
  "setStatus key text s = s\<lparr>status := (status s)(key := text)\<rparr>"

definition notify :: "string \<Rightarrow> string \<Rightarrow> 'a HostUI_scheme \<Rightarrow> 'a HostUI_scheme" where
  "notify message level s = s\<lparr>notifications := notifications s @ [(message, level)]\<rparr>"

definition showConfirm :: "string \<Rightarrow> string \<Rightarrow> 'a HostUI_scheme \<Rightarrow> 'a HostUI_scheme" where
  "showConfirm title body s = s\<lparr>dialogs := dialogs s @ [(title, body)]\<rparr>"

section \<open>approval-mode.ts\<close>

text \<open>
  \<^verbatim>\<open>type ApprovalMode = "allow-all" | "approve-all"\<close> is a compile-time type only; at
  run time the variable holds a string or \<^verbatim>\<open>undefined\<close>, and \<^verbatim>\<open>!mode\<close> is true of
  \<^verbatim>\<open>undefined\<close> and of the empty string.
\<close>

type_synonym ApprovalMode = string

definition truthy :: "string option \<Rightarrow> bool" where
  "truthy m = (case m of None \<Rightarrow> False | Some s \<Rightarrow> s \<noteq> [])"

definition STATE_ENTRY_TYPE :: string where
  "STATE_ENTRY_TYPE = ''approval-mode-state''"

definition stringField :: "(string \<times> jsval) list \<Rightarrow> string \<Rightarrow> string \<Rightarrow> string" where
  "stringField input key missing = (case getProp input key of JStr s \<Rightarrow> s | _ \<Rightarrow> missing)"

definition formatToolInput :: "string \<Rightarrow> (string \<times> jsval) list \<Rightarrow> string" where
  "formatToolInput toolName input =
     (if toolName = ''bash'' then
        ''command: '' @ stringField input ''command'' ''(missing command)''
      else if toolName = ''write'' then
        ''filePath: '' @ stringField input ''filePath'' ''(missing filePath)''
      else if toolName = ''edit'' then
        ''filePath: '' @ stringField input ''filePath'' ''(missing filePath)''
      else if toolName = ''read'' then
        ''filePath: '' @ stringField input ''filePath'' ''(missing filePath)''
      else (case JSON_stringify_2 (JObj input) of Some str \<Rightarrow> str | None \<Rightarrow> ''undefined''))"

definition modeStatusText :: "ExtensionContext \<Rightarrow> ApprovalMode option \<Rightarrow> string option" where
  "modeStatusText ctx m =
     (if \<not> truthy m then None
      else if m = Some ''allow-all'' then Some (fg ctx ''dim'' ''approval: allow all'')
      else Some (fg ctx ''warning'' ''approval: confirm each tool''))"

text \<open>
  The extension's closure variable \<^verbatim>\<open>mode\<close>, the entries it has appended through
  \<^verbatim>\<open>pi.appendEntry\<close>, and the host's UI.
\<close>

record ApprovalState = HostUI +
  mode :: "ApprovalMode option"
  appended :: "SessionEntry list"

definition approvalModeExtension :: ApprovalState where
  "approvalModeExtension =
     \<lparr>status = Map.empty, notifications = [], dialogs = [], mode = None, appended = []\<rparr>"

text \<open>\<^verbatim>\<open>pi.appendEntry(customType, data)\<close> appends a custom entry to the session history.\<close>

definition appendEntry :: "string \<Rightarrow> jsval \<Rightarrow> ApprovalState \<Rightarrow> ApprovalState" where
  "appendEntry tag payload s =
     s\<lparr>appended := appended s
          @ [\<lparr>entryType = ''custom'', customType = Some tag, data = payload\<rparr>]\<rparr>"

definition persistMode :: "ApprovalState \<Rightarrow> ApprovalState" where
  "persistMode s =
     (case mode s of
        None \<Rightarrow> s
      | Some m \<Rightarrow> if m = [] then s else appendEntry STATE_ENTRY_TYPE (JObj [(''mode'', JStr m)]) s)"

text \<open>The \<^verbatim>\<open>for\<close> loop of \<^verbatim>\<open>restoreModeFromBranch\<close>, with the local \<^verbatim>\<open>restored\<close>.\<close>

fun scanBranch :: "ApprovalMode option \<Rightarrow> SessionEntry list \<Rightarrow> ApprovalMode option" where
  "scanBranch restored [] = restored"
| "scanBranch restored (entry # rest) =
     (if entryType entry \<noteq> ''custom'' \<or> customType entry \<noteq> Some STATE_ENTRY_TYPE
      then scanBranch restored rest
      else (case optMember (data entry) ''mode'' of
              JStr m \<Rightarrow>
                if m = ''allow-all'' \<or> m = ''approve-all'' then scanBranch (Some m) rest
                else scanBranch restored rest
            | _ \<Rightarrow> scanBranch restored rest))"

definition restoreModeFromBranch :: "ExtensionContext \<Rightarrow> ApprovalState \<Rightarrow> ApprovalState" where
  "restoreModeFromBranch ctx s =
     (let restored = scanBranch None (getBranch ctx);
          s1 = s\<lparr>mode := (case restored of None \<Rightarrow> mode s | Some m \<Rightarrow> Some m)\<rparr>
      in setStatus ''approval-mode'' (modeStatusText ctx (mode s1)) s1)"

definition permissionTitle :: string where
  "permissionTitle = ''Permission mode''"

definition permissionBody :: string where
  "permissionBody =
     ''Enable everything (no per-tool confirmations)?'' @ [CHR 0x0A, CHR 0x0A]
     @ ''Yes = allow all'' @ [CHR 0x0A] @ ''No = ask for each tool call''"

definition ensureModeSelected :: "ExtensionContext \<Rightarrow> ApprovalState \<Rightarrow> ApprovalState" where
  "ensureModeSelected ctx s =
     (if truthy (mode s) then setStatus ''approval-mode'' (modeStatusText ctx (mode s)) s
      else if \<not> hasUI ctx then persistMode (s\<lparr>mode := Some ''approve-all''\<rparr>)
      else
        (let s1 = showConfirm permissionTitle permissionBody s;
             allowAll = confirm ctx permissionTitle permissionBody;
             s2 = s1\<lparr>mode := Some (if allowAll then ''allow-all'' else ''approve-all'')\<rparr>;
             s3 = persistMode s2
         in setStatus ''approval-mode'' (modeStatusText ctx (mode s3)) s3))"

text \<open>The handler of the \<^verbatim>\<open>approval-mode\<close> command.\<close>

definition approval_mode_command :: "ExtensionContext \<Rightarrow> ApprovalState \<Rightarrow> ApprovalState" where
  "approval_mode_command ctx s =
     (if \<not> hasUI ctx then notify ''No interactive UI available'' ''warning'' s
      else
        (let s1 = showConfirm permissionTitle permissionBody s;
             allowAll = confirm ctx permissionTitle permissionBody;
             m = (if allowAll then ''allow-all'' else ''approve-all'');
             s2 = s1\<lparr>mode := Some m\<rparr>;
             s3 = persistMode s2;
             s4 = setStatus ''approval-mode'' (modeStatusText ctx (mode s3)) s3
         in notify (''Permission mode set to '' @ (case mode s4 of Some x \<Rightarrow> x | None \<Rightarrow> ''undefined''))
                   ''info'' s4))"

definition on_session_start :: "ExtensionContext \<Rightarrow> ApprovalState \<Rightarrow> ApprovalState" where
  "on_session_start ctx s =
     (let s1 = restoreModeFromBranch ctx s
      in if truthy (mode s1) then setStatus ''approval-mode'' (modeStatusText ctx (mode s1)) s1
         else s1)"

definition on_session_tree :: "ExtensionContext \<Rightarrow> ApprovalState \<Rightarrow> ApprovalState" where
  "on_session_tree ctx s = restoreModeFromBranch ctx s"

definition on_session_fork :: "ExtensionContext \<Rightarrow> ApprovalState \<Rightarrow> ApprovalState" where
  "on_session_fork ctx s = restoreModeFromBranch ctx s"

text \<open>The \<^verbatim>\<open>input\<close> handler returns \<^verbatim>\<open>{ action: "continue" }\<close> in every case.\<close>

definition on_input :: "ExtensionContext \<Rightarrow> ApprovalState \<Rightarrow> string \<times> ApprovalState" where
  "on_input ctx s = (''continue'', if \<not> truthy (mode s) then ensureModeSelected ctx s else s)"

record ToolCallEvent =
  toolName :: string
  input :: "(string \<times> jsval) list"

record ToolCallResult =
  block :: bool
  reason :: string

text \<open>Lines 138 to 140 of the \<^verbatim>\<open>tool_call\<close> handler: the lazy resolution of the policy.\<close>

definition resolveMode :: "ExtensionContext \<Rightarrow> ApprovalState \<Rightarrow> ApprovalState" where
  "resolveMode ctx s = (if \<not> truthy (mode s) then ensureModeSelected ctx s else s)"

definition approveTitle :: string where
  "approveTitle = ''Approve tool call?''"

definition approveBody :: "ToolCallEvent \<Rightarrow> string" where
  "approveBody event =
     ''Tool: '' @ toolName event @ [CHR 0x0A] @ formatToolInput (toolName event) (input event)"

text \<open>
  The \<^verbatim>\<open>tool_call\<close> handler: \<open>None\<close> is \<^verbatim>\<open>undefined\<close> (the call goes on), \<open>Some r\<close> the
  blocking instruction.
\<close>

definition on_tool_call ::
  "ToolCallEvent \<Rightarrow> ExtensionContext \<Rightarrow> ApprovalState \<Rightarrow> ToolCallResult option \<times> ApprovalState" where
  "on_tool_call event ctx s =
     (let s1 = resolveMode ctx s
      in if mode s1 \<noteq> Some ''approve-all'' then (None, s1)
         else if \<not> hasUI ctx then
           (Some \<lparr>block = True,
                  reason = ''Tool call blocked (approve-all mode requires interactive confirmation)''\<rparr>,
            s1)
         else
           (let s2 = showConfirm approveTitle (approveBody event) s1;
                confirmed = confirm ctx approveTitle (approveBody event)
            in if \<not> confirmed then
                 (Some \<lparr>block = True,
                        reason = ''Blocked by user (tool: '' @ toolName event @ '')''\<rparr>, s2)
               else (None, s2)))"

text \<open>The operations of the approval gate, as the host dispatches them.\<close>

datatype ApprovalEvent =
    Session_start
  | Session_tree
  | Session_fork
  | Input
  | Tool_call ToolCallEvent
  | Approval_mode_command

fun dispatch :: "ApprovalEvent \<Rightarrow> ExtensionContext \<Rightarrow> ApprovalState \<Rightarrow> ApprovalState" where
  "dispatch Session_start ctx s = on_session_start ctx s"
| "dispatch Session_tree ctx s = on_session_tree ctx s"
| "dispatch Session_fork ctx s = on_session_fork ctx s"
| "dispatch Input ctx s = snd (on_input ctx s)"
| "dispatch (Tool_call event) ctx s = snd (on_tool_call event ctx s)"
| "dispatch Approval_mode_command ctx s = approval_mode_command ctx s"

fun run :: "(ApprovalEvent \<times> ExtensionContext) list \<Rightarrow> ApprovalState \<Rightarrow> ApprovalState" where
  "run [] s = s"
| "run ((ev, ctx) # rest) s = run rest (dispatch ev ctx s)"

section \<open>runtime-uptime.ts\<close>

definition formatDuration :: "int \<Rightarrow> string" where
  "formatDuration ms =
     (let totalSeconds = max 0 (ms div 1000);
          hours = totalSeconds div 3600;
          minutes = (totalSeconds mod 3600) div 60;
          seconds = totalSeconds mod 60
      in padStart 2 ''0'' (numberToString hours) @ '':''
         @ padStart 2 ''0'' (numberToString minutes) @ '':''
         @ padStart 2 ''0'' (numberToString seconds))"

text \<open>
  The closure of \<^verbatim>\<open>runtimeUptimeExtension\<close>: the constant \<^verbatim>\<open>startTimeMs\<close> and the
  variable \<^verbatim>\<open>timer\<close>; and the host's timers: the active intervals (handle and the context
  their callback captured) and the next handle \<^verbatim>\<open>setInterval\<close> gives out. A handle is
  truthy, so \<^verbatim>\<open>!timer\<close> holds of \<^verbatim>\<open>undefined\<close> only.
\<close>

record UptimeState = HostUI +
  startTimeMs :: int
  timer :: "nat option"
  intervals :: "(nat \<times> ExtensionContext) list"
  nextHandle :: nat

text \<open>\<open>now\<close> is the value of \<^verbatim>\<open>Date.now()\<close> at the call.\<close>

definition renderStatus :: "ExtensionContext \<Rightarrow> int \<Rightarrow> int \<Rightarrow> UptimeState \<Rightarrow> UptimeState" where
  "renderStatus ctx startTime now s =
     (let elapsed = formatDuration (now - startTime);
          text = fg ctx ''dim'' (''uptime '' @ elapsed)
      in setStatus ''runtime-uptime'' (Some text) s)"

definition runtimeUptimeExtension :: "int \<Rightarrow> UptimeState" where
  "runtimeUptimeExtension now =
     \<lparr>status = Map.empty, notifications = [], dialogs = [],
      startTimeMs = now, timer = None, intervals = [], nextHandle = 0\<rparr>"

definition clearInterval :: "nat \<Rightarrow> UptimeState \<Rightarrow> UptimeState" where
  "clearInterval h s = s\<lparr>intervals := filter (\<lambda>p. fst p \<noteq> h) (intervals s)\<rparr>"

definition setInterval :: "ExtensionContext \<Rightarrow> UptimeState \<Rightarrow> nat \<times> UptimeState" where
  "setInterval ctx s =
     (nextHandle s,
      s\<lparr>intervals := intervals s @ [(nextHandle s, ctx)], nextHandle := Suc (nextHandle s)\<rparr>)"

definition stopTimer :: "UptimeState \<Rightarrow> UptimeState" where
  "stopTimer s =
     (case timer s of
        None \<Rightarrow> s
      | Some h \<Rightarrow> (clearInterval h s)\<lparr>timer := None\<rparr>)"

definition startTimer :: "ExtensionContext \<Rightarrow> int \<Rightarrow> UptimeState \<Rightarrow> UptimeState" where
  "startTimer ctx now s =
     (let s1 = stopTimer s;
          s2 = renderStatus ctx (startTimeMs s1) now s1;
          (h, s3) = setInterval ctx s2
      in s3\<lparr>timer := Some h\<rparr>)"

text \<open>The \<^verbatim>\<open>uptime\<close> command reads the clock twice: for the notification and for the status.\<close>

definition uptime_command :: "ExtensionContext \<Rightarrow> int \<Rightarrow> int \<Rightarrow> UptimeState \<Rightarrow> UptimeState" where
  "uptime_command ctx now1 now2 s =
     (let elapsed = formatDuration (now1 - startTimeMs s);
          s1 = notify (''pi runtime: '' @ elapsed) ''info'' s
      in renderStatus ctx (startTimeMs s1) now2 s1)"

definition up_session_start :: "ExtensionContext \<Rightarrow> int \<Rightarrow> UptimeState \<Rightarrow> UptimeState" where
  "up_session_start ctx now s = startTimer ctx now s"

definition up_session_switch :: "ExtensionContext \<Rightarrow> int \<Rightarrow> UptimeState \<Rightarrow> UptimeState" where
  "up_session_switch ctx now s = startTimer ctx now s"

definition up_session_shutdown :: "ExtensionContext \<Rightarrow> UptimeState \<Rightarrow> UptimeState" where
  "up_session_shutdown ctx s = setStatus ''runtime-uptime'' None (stopTimer s)"

text \<open>A tick of the host's timer \<open>h\<close>: the callback of that interval, when it is active.\<close>

definition tick :: "nat \<Rightarrow> int \<Rightarrow> UptimeState \<Rightarrow> UptimeState" where
  "tick h now s =
     (case map_of (intervals s) h of
        None \<Rightarrow> s
      | Some ctx \<Rightarrow> renderStatus ctx (startTimeMs s) now s)"

datatype UptimeEvent =
    Up_session_start ExtensionContext int
  | Up_session_switch ExtensionContext int
  | Up_session_shutdown ExtensionContext
  | Up_command ExtensionContext int int
  | Up_tick nat int

fun up_dispatch :: "UptimeEvent \<Rightarrow> UptimeState \<Rightarrow> UptimeState" where
  "up_dispatch (Up_session_start ctx now) s = up_session_start ctx now s"
| "up_dispatch (Up_session_switch ctx now) s = up_session_switch ctx now s"
| "up_dispatch (Up_session_shutdown ctx) s = up_session_shutdown ctx s"
| "up_dispatch (Up_command ctx now1 now2) s = uptime_command ctx now1 now2 s"
| "up_dispatch (Up_tick h now) s = tick h now s"

fun up_run :: "UptimeEvent list \<Rightarrow> UptimeState \<Rightarrow> UptimeState" where
  "up_run [] s = s"
| "up_run (ev # rest) s = up_run rest (up_dispatch ev s)"

section \<open>The properties, in the specification's words\<close>

text \<open>
  A policy-change entry: a custom entry with the policy-change tag whose payload carries
  one of the two policy values; its value; and the value of the last one of a branch.
\<close>

definition isPolicyChange :: "SessionEntry \<Rightarrow> bool" where
  "isPolicyChange entry =
     (entryType entry = ''custom'' \<and> customType entry = Some STATE_ENTRY_TYPE \<and>
      (optMember (data entry) ''mode'' = JStr ''allow-all'' \<or>
       optMember (data entry) ''mode'' = JStr ''approve-all''))"

definition policyValue :: "SessionEntry \<Rightarrow> ApprovalMode option" where
  "policyValue entry = (case optMember (data entry) ''mode'' of JStr m \<Rightarrow> Some m | _ \<Rightarrow> None)"

definition lastPolicyChange :: "SessionEntry list \<Rightarrow> ApprovalMode option" where
  "lastPolicyChange branch =
     (case filter isPolicyChange branch of [] \<Rightarrow> None | e # es \<Rightarrow> policyValue (last (e # es)))"

text \<open>The in-memory policy is unset or one of the two enumerated values.\<close>

definition validMode :: "ApprovalMode option \<Rightarrow> bool" where
  "validMode m = (m = None \<or> m = Some ''allow-all'' \<or> m = Some ''approve-all'')"

text \<open>The events that restore the policy from the branch.\<close>

definition isRestore :: "ApprovalEvent \<Rightarrow> bool" where
  "isRestore ev = (ev = Session_start \<or> ev = Session_tree \<or> ev = Session_fork)"

text \<open>The host runs the interval the extension holds a handle of, and no other.\<close>

definition oneTimer :: "UptimeState \<Rightarrow> bool" where
  "oneTimer s = (case timer s of None \<Rightarrow> intervals s = [] | Some h \<Rightarrow> map fst (intervals s) = [h])"

section \<open>Sample contexts, entries and events\<close>

text \<open>
  A user who accepts every dialog, one who declines every dialog, and one who declines the
  policy dialog and accepts each tool call; a theme that leaves the text as it is; a
  context without a UI and one with.
\<close>

definition answerYes :: "string \<Rightarrow> string \<Rightarrow> bool" where
  "answerYes title body = True"

definition answerNo :: "string \<Rightarrow> string \<Rightarrow> bool" where
  "answerNo title body = False"

definition answerApproveOnly :: "string \<Rightarrow> string \<Rightarrow> bool" where
  "answerApproveOnly title body = (title = approveTitle)"

definition plainTheme :: "string \<Rightarrow> string \<Rightarrow> string" where
  "plainTheme style text = text"

definition headless :: "SessionEntry list \<Rightarrow> ExtensionContext" where
  "headless branch = \<lparr>hasUI = False, confirm = answerNo, fg = plainTheme, getBranch = branch\<rparr>"

definition interactive :: "(string \<Rightarrow> string \<Rightarrow> bool) \<Rightarrow> SessionEntry list \<Rightarrow> ExtensionContext" where
  "interactive answer branch = \<lparr>hasUI = True, confirm = answer, fg = plainTheme, getBranch = branch\<rparr>"

definition policyEntry :: "jsval \<Rightarrow> SessionEntry" where
  "policyEntry payload = \<lparr>entryType = ''custom'', customType = Some STATE_ENTRY_TYPE, data = payload\<rparr>"

definition modePayload :: "string \<Rightarrow> jsval" where
  "modePayload m = JObj [(''mode'', JStr m)]"

definition messageEntry :: SessionEntry where
  "messageEntry = \<lparr>entryType = ''message'', customType = None, data = JUndefined\<rparr>"

definition sampleBranch :: "SessionEntry list" where
  "sampleBranch =
     [policyEntry (modePayload ''allow-all''), messageEntry, policyEntry (modePayload ''approve-all''),
      policyEntry JUndefined, policyEntry (modePayload ''deny-all''),
      \<lparr>entryType = ''custom'', customType = Some ''bookmark'', data = modePayload ''allow-all''\<rparr>,
      \<lparr>entryType = ''message'', customType = Some STATE_ENTRY_TYPE, data = modePayload ''allow-all''\<rparr>]"

definition bashLs :: ToolCallEvent where
  "bashLs = \<lparr>toolName = ''bash'', input = [(''command'', JStr ''ls'')]\<rparr>"

text \<open>
  A run of the uptime reporter: a session start, a tick, a session switch, a tick of the
  cancelled timer, a tick of the new one, and the uptime command.
\<close>

definition sampleUptimeRun :: "UptimeEvent list" where
  "sampleUptimeRun =
     [Up_session_start (headless []) 1000, Up_tick 0 2000, Up_session_switch (headless []) 61000,
      Up_tick 0 62000, Up_tick 1 62000, Up_command (headless []) 63000 63001]"

section \<open>Evaluation rules\<close>

declare natToString.simps [simp del]

lemmas sample_defs =
  answerYes_def answerNo_def answerApproveOnly_def plainTheme_def headless_def interactive_def
  policyEntry_def modePayload_def messageEntry_def sampleBranch_def bashLs_def
  STATE_ENTRY_TYPE_def getProp_def

lemma sample_last: "lastPolicyChange sampleBranch = Some ''approve-all''"
  by (simp add: lastPolicyChange_def isPolicyChange_def policyValue_def sample_defs)

section \<open>The branch scan\<close>

lemma policyValue_valid:
  "isPolicyChange e \<Longrightarrow> policyValue e = Some ''allow-all'' \<or> policyValue e = Some ''approve-all''"
  by (auto simp: isPolicyChange_def policyValue_def)

lemma scanBranch_skip:
  "\<not> isPolicyChange e \<Longrightarrow> scanBranch r (e # es) = scanBranch r es"
  by (auto simp: isPolicyChange_def split: jsval.splits)

lemma scanBranch_take:
  "isPolicyChange e \<Longrightarrow> scanBranch r (e # es) = scanBranch (policyValue e) es"
  by (auto simp: isPolicyChange_def policyValue_def split: jsval.splits)

lemma scanBranch_lastPolicyChange:
  "scanBranch r es = (case lastPolicyChange es of None \<Rightarrow> r | Some m \<Rightarrow> Some m)"
proof (induction es arbitrary: r)
  case Nil
  show ?case by (simp add: lastPolicyChange_def)
next
  case (Cons e es)
  show ?case
  proof (cases "isPolicyChange e")
    case False
    then have "lastPolicyChange (e # es) = lastPolicyChange es"
      by (simp add: lastPolicyChange_def)
    with False Cons.IH [of r] show ?thesis
      by (simp add: scanBranch_skip del: scanBranch.simps)
  next
    case True
    from policyValue_valid [OF True] obtain m where m: "policyValue e = Some m" by auto
    show ?thesis
    proof (cases "filter isPolicyChange es")
      case Nil
      then have "lastPolicyChange (e # es) = Some m" "lastPolicyChange es = None"
        using True m by (simp_all add: lastPolicyChange_def)
      with True m Cons.IH [of "Some m"] show ?thesis
        by (simp add: scanBranch_take del: scanBranch.simps)
    next
      case (Cons e' es')
      then have "lastPolicyChange (e # es) = lastPolicyChange es"
        using True by (simp add: lastPolicyChange_def)
      moreover have "lastPolicyChange es \<noteq> None"
      proof -
        have "last (e' # es') \<in> set (filter isPolicyChange es)"
          using Cons by (metis last_in_set list.distinct(1))
        then have "isPolicyChange (last (e' # es'))" by simp
        from policyValue_valid [OF this] show ?thesis
          using Cons by (auto simp: lastPolicyChange_def)
      qed
      ultimately show ?thesis
        using True m Cons.IH [of "Some m"]
        by (auto simp add: scanBranch_take simp del: scanBranch.simps split: option.splits)
    qed
  qed
qed

lemma lastPolicyChange_valid:
  "lastPolicyChange es = Some m \<Longrightarrow> m = ''allow-all'' \<or> m = ''approve-all''"
proof -
  assume a: "lastPolicyChange es = Some m"
  then obtain e' es' where f: "filter isPolicyChange es = e' # es'"
    by (auto simp: lastPolicyChange_def split: list.splits)
  then have "last (e' # es') \<in> set (filter isPolicyChange es)"
    by (metis last_in_set list.distinct(1))
  then have "isPolicyChange (last (e' # es'))" by simp
  from policyValue_valid [OF this] a f show ?thesis
    by (auto simp: lastPolicyChange_def)
qed

lemma mode_setStatus [simp]: "mode (setStatus k t s) = mode s"
  by (simp add: setStatus_def)

lemma mode_notify [simp]: "mode (notify m l s) = mode s"
  by (simp add: notify_def)

lemma mode_showConfirm [simp]: "mode (showConfirm t b s) = mode s"
  by (simp add: showConfirm_def)

lemma mode_persistMode [simp]: "mode (persistMode s) = mode s"
  by (simp add: persistMode_def appendEntry_def split: option.splits)

lemma mode_restoreModeFromBranch:
  "mode (restoreModeFromBranch ctx s) =
     (case lastPolicyChange (getBranch ctx) of None \<Rightarrow> mode s | Some m \<Rightarrow> Some m)"
  by (simp add: restoreModeFromBranch_def Let_def scanBranch_lastPolicyChange split: option.splits)

lemma mode_on_session_start:
  "mode (on_session_start ctx s) = mode (restoreModeFromBranch ctx s)"
  by (simp add: on_session_start_def Let_def)

lemma mode_ensureModeSelected:
  "mode (ensureModeSelected ctx s) =
     (if truthy (mode s) then mode s
      else if \<not> hasUI ctx then Some ''approve-all''
      else if confirm ctx permissionTitle permissionBody then Some ''allow-all''
      else Some ''approve-all'')"
  by (simp add: ensureModeSelected_def Let_def)

lemma mode_resolveMode:
  "mode (resolveMode ctx s) =
     (if truthy (mode s) then mode s
      else if \<not> hasUI ctx then Some ''approve-all''
      else if confirm ctx permissionTitle permissionBody then Some ''allow-all''
      else Some ''approve-all'')"
  by (simp add: resolveMode_def mode_ensureModeSelected)

lemma mode_on_tool_call:
  "mode (snd (on_tool_call ev ctx s)) = mode (resolveMode ctx s)"
  by (simp add: on_tool_call_def Let_def)

lemma mode_on_input:
  "mode (snd (on_input ctx s)) = mode (resolveMode ctx s)"
  by (simp add: on_input_def resolveMode_def)

lemma mode_approval_mode_command:
  "mode (approval_mode_command ctx s) =
     (if \<not> hasUI ctx then mode s
      else if confirm ctx permissionTitle permissionBody then Some ''allow-all''
      else Some ''approve-all'')"
  by (simp add: approval_mode_command_def Let_def)


section \<open>Restoring the policy from the branch\<close>

text \<open>
  C1, as the code has it. After the restore-policy-from-branch operation the in-memory
  policy is the value of the last entry of the branch that is a custom entry with the
  policy-change tag and a valid mode payload; when the branch holds no such entry the
  policy is left as it was before the operation (unset only if it was unset). The session
  start, tree navigation and fork handlers set the policy to the same value.
\<close>

theorem restore_policy_from_branch:
  "mode (restoreModeFromBranch ctx s) =
     (case lastPolicyChange (getBranch ctx) of None \<Rightarrow> mode s | Some m \<Rightarrow> Some m) \<and>
   mode (on_session_start ctx s) = mode (restoreModeFromBranch ctx s) \<and>
   mode (on_session_tree ctx s) = mode (restoreModeFromBranch ctx s) \<and>
   mode (on_session_fork ctx s) = mode (restoreModeFromBranch ctx s)"
  by (simp add: mode_restoreModeFromBranch mode_on_session_start on_session_tree_def
      on_session_fork_def)

theorem restore_policy_from_branch_witness:
  "mode (restoreModeFromBranch (headless sampleBranch) approvalModeExtension) = Some ''approve-all'' \<and>
   mode (restoreModeFromBranch (headless [messageEntry]) approvalModeExtension) = None \<and>
   mode (on_session_tree (headless sampleBranch) (approvalModeExtension\<lparr>mode := Some ''allow-all''\<rparr>))
     = Some ''approve-all''"
proof -
  have l: "lastPolicyChange (getBranch (headless sampleBranch)) = Some ''approve-all''"
    by (simp add: headless_def sample_last)
  have n: "lastPolicyChange (getBranch (headless [messageEntry])) = None"
    by (simp add: lastPolicyChange_def isPolicyChange_def sample_defs)
  show ?thesis
    using restore_policy_from_branch [of "headless sampleBranch" approvalModeExtension]
      restore_policy_from_branch [of "headless [messageEntry]" approvalModeExtension]
      restore_policy_from_branch [of "headless sampleBranch" "approvalModeExtension\<lparr>mode := Some ''allow-all''\<rparr>"]
    by (simp add: l n approvalModeExtension_def)
qed

text \<open>
  C1 as stated fails where a policy is in memory and the branch holds no policy-change
  entry: the user picks allow-all through the command, then navigates to a branch with a
  single message entry; the policy is still allow-all, not unset.
\<close>

theorem restore_without_entry_counterexample:
  "lastPolicyChange (getBranch (interactive answerYes [messageEntry])) = None \<and>
   mode (run [(Approval_mode_command, interactive answerYes []),
              (Session_tree, interactive answerYes [messageEntry])] approvalModeExtension)
     = Some ''allow-all''"
  by (simp add: lastPolicyChange_def isPolicyChange_def sample_defs on_session_tree_def
      mode_restoreModeFromBranch mode_approval_mode_command)

section \<open>Formatting a duration\<close>

lemma digitChar_numeral:
  "digitChar 0 = CHR ''0''" "digitChar 1 = CHR ''1''" "digitChar 2 = CHR ''2''"
  "digitChar 3 = CHR ''3''" "digitChar 4 = CHR ''4''" "digitChar 5 = CHR ''5''"
  "digitChar 6 = CHR ''6''" "digitChar 7 = CHR ''7''" "digitChar 8 = CHR ''8''"
  "digitChar 9 = CHR ''9''" "digitChar (Suc 0) = CHR ''1''"
  by code_simp+

lemma natToString_digit: "n < 10 \<Longrightarrow> natToString n = [digitChar n]"
  by (subst natToString.simps) simp

lemma natToString_two:
  "10 \<le> n \<Longrightarrow> n < 100 \<Longrightarrow> natToString n = [digitChar (n div 10), digitChar (n mod 10)]"
  by (subst natToString.simps) (simp add: natToString_digit)

lemma padStart_two_digits:
  assumes "0 \<le> i" and "i < 100"
  shows "padStart 2 ''0'' (numberToString i) = [digitChar (nat i div 10), digitChar (nat i mod 10)]"
proof (cases "i < 10")
  case True
  with assms show ?thesis
    by (simp add: padStart_def numberToString_def natToString_digit digitChar_numeral)
next
  case False
  with assms show ?thesis
    by (simp add: padStart_def numberToString_def natToString_two)
qed

lemma formatDuration_clamped:
  assumes "ms < 0"
  shows "formatDuration ms = ''00:00:00''"
proof -
  from assms have "ms div 1000 < 0" by simp
  then have "max 0 (ms div 1000) = 0" by simp
  then show ?thesis
    by (simp add: formatDuration_def Let_def padStart_def numberToString_def
        natToString_digit digitChar_numeral)
qed

lemma formatDuration_digits:
  assumes "0 \<le> ms" and "ms < 360000000"
  shows "formatDuration ms =
     [digitChar (nat (ms div 1000 div 3600) div 10),
      digitChar (nat (ms div 1000 div 3600) mod 10), CHR '':'',
      digitChar (nat (ms div 1000 mod 3600 div 60) div 10),
      digitChar (nat (ms div 1000 mod 3600 div 60) mod 10), CHR '':'',
      digitChar (nat (ms div 1000 mod 60) div 10),
      digitChar (nat (ms div 1000 mod 60) mod 10)]"
proof -
  let ?t = "ms div 1000"
  have t0: "0 \<le> ?t" using assms by simp
  have t1: "?t < 360000" using assms by simp
  have mx: "max 0 ?t = ?t" using t0 by simp
  have hb: "0 \<le> ?t div 3600" "?t div 3600 < 100" using t0 t1 by simp_all
  have mb: "0 \<le> (?t mod 3600) div 60" "(?t mod 3600) div 60 < 100"
    using pos_mod_bound [of 3600 ?t] pos_mod_sign [of 3600 ?t] by simp_all
  have sb: "0 \<le> ?t mod 60" "?t mod 60 < 100"
    using pos_mod_bound [of 60 ?t] by simp_all
  show ?thesis
    unfolding formatDuration_def Let_def mx
    by (simp only: padStart_two_digits [OF hb] padStart_two_digits [OF mb]
        padStart_two_digits [OF sb] append.simps)
qed

text \<open>
  C7. The duration formatter gives zero-padded HH:MM:SS and clamps negative inputs to zero:
  0 ms gives 00:00:00, 3661000 ms gives 01:01:01, every negative value gives 00:00:00;
  and below one hundred hours the result is the two digits of the hours, of the minutes
  and of the seconds, separated by colons.
\<close>

theorem formatDuration_hms:
  "formatDuration 0 = ''00:00:00'' \<and>
   formatDuration 3661000 = ''01:01:01'' \<and>
   (\<forall>ms<0. formatDuration ms = ''00:00:00'') \<and>
   (\<forall>ms. 0 \<le> ms \<and> ms < 360000000 \<longrightarrow>
      formatDuration ms =
        [digitChar (nat (ms div 1000 div 3600) div 10),
         digitChar (nat (ms div 1000 div 3600) mod 10), CHR '':'',
         digitChar (nat (ms div 1000 mod 3600 div 60) div 10),
         digitChar (nat (ms div 1000 mod 3600 div 60) mod 10), CHR '':'',
         digitChar (nat (ms div 1000 mod 60) div 10),
         digitChar (nat (ms div 1000 mod 60) mod 10)])"
proof -
  have "formatDuration 0 = ''00:00:00''" by code_simp
  moreover have "formatDuration 3661000 = ''01:01:01''" by code_simp
  ultimately show ?thesis
    using formatDuration_clamped formatDuration_digits by blast
qed

theorem formatDuration_hms_witness:
  "formatDuration (- 1) = ''00:00:00'' \<and> formatDuration (- 86400000) = ''00:00:00'' \<and>
   formatDuration 359999999 = ''99:59:59''"
proof -
  have neg: "\<forall>ms<0. formatDuration ms = ''00:00:00''"
    using formatDuration_hms by blast
  have pos: "\<forall>ms. 0 \<le> ms \<and> ms < 360000000 \<longrightarrow>
      formatDuration ms =
        [digitChar (nat (ms div 1000 div 3600) div 10),
         digitChar (nat (ms div 1000 div 3600) mod 10), CHR '':'',
         digitChar (nat (ms div 1000 mod 3600 div 60) div 10),
         digitChar (nat (ms div 1000 mod 3600 div 60) mod 10), CHR '':'',
         digitChar (nat (ms div 1000 mod 60) div 10),
         digitChar (nat (ms div 1000 mod 60) mod 10)]"
    using formatDuration_hms by blast
  have a: "formatDuration (- 1) = ''00:00:00''" using neg by simp
  have b: "formatDuration (- 86400000) = ''00:00:00''" using neg by simp
  have "formatDuration 359999999 =
        [digitChar (nat (359999999 div 1000 div 3600) div 10),
         digitChar (nat (359999999 div 1000 div 3600) mod 10), CHR '':'',
         digitChar (nat (359999999 div 1000 mod 3600 div 60) div 10),
         digitChar (nat (359999999 div 1000 mod 3600 div 60) mod 10), CHR '':'',
         digitChar (nat (359999999 div 1000 mod 60) div 10),
         digitChar (nat (359999999 div 1000 mod 60) mod 10)]"
    using pos by simp
  then have c: "formatDuration 359999999 = ''99:59:59''"
    by (simp add: digitChar_numeral)
  from a b c show ?thesis by simp
qed

section \<open>The summary of a tool input\<close>

lemma stringify_object_Some:
  "\<exists>str. JSON_stringify_2 (JObj props) = Some str"
  by (simp add: JSON_stringify_2_def Let_def)

lemma formatToolInput_other:
  assumes "name \<noteq> ''bash''" "name \<noteq> ''write''" "name \<noteq> ''edit''" "name \<noteq> ''read''"
  shows "JSON_stringify_2 (JObj props) = Some (formatToolInput name props)"
  using assms stringify_object_Some [of props]
  by (auto simp: formatToolInput_def)

lemma stringify_x1:
  "JSON_stringify_2 (JObj [(''x'', JNum 1)]) =
     Some (''{'' @ [CHR 0x0A] @ ''  '' @ [CHR 0x22] @ ''x'' @ [CHR 0x22] @ '': 1'' @ [CHR 0x0A] @ ''}'')"
  by code_simp

text \<open>
  C8. The summary of a tool input is the designated field for each known tool name
  (the command of bash, the file path of write, edit and read) and the JSON text of the
  whole input for any other name: bash with the input \<open>{command: "ls"}\<close> gives exactly
  \<open>command: ls\<close>, and a name that is none of the four with the input \<open>{x: 1}\<close> gives the
  JSON text of the input, an opening brace, the indented member and a closing brace on
  three lines.
\<close>

theorem formatToolInput_summary:
  "formatToolInput ''bash'' [(''command'', JStr ''ls'')] = ''command: ls'' \<and>
   (map_of props ''command'' = Some (JStr c) \<longrightarrow> formatToolInput ''bash'' props = ''command: '' @ c) \<and>
   (map_of props ''filePath'' = Some (JStr p) \<longrightarrow>
      formatToolInput ''write'' props = ''filePath: '' @ p \<and>
      formatToolInput ''edit'' props = ''filePath: '' @ p \<and>
      formatToolInput ''read'' props = ''filePath: '' @ p) \<and>
   (name \<noteq> ''bash'' \<and> name \<noteq> ''write'' \<and> name \<noteq> ''edit'' \<and> name \<noteq> ''read'' \<longrightarrow>
      JSON_stringify_2 (JObj props) = Some (formatToolInput name props) \<and>
      formatToolInput name [(''x'', JNum 1)] =
        ''{'' @ [CHR 0x0A] @ ''  '' @ [CHR 0x22] @ ''x'' @ [CHR 0x22] @ '': 1'' @ [CHR 0x0A] @ ''}'')"
proof -
  have a: "formatToolInput ''bash'' [(''command'', JStr ''ls'')] = ''command: ls''"
    by (simp add: formatToolInput_def stringField_def getProp_def)
  have b: "map_of props ''command'' = Some (JStr c) \<longrightarrow>
      formatToolInput ''bash'' props = ''command: '' @ c"
    by (simp add: formatToolInput_def stringField_def getProp_def)
  have c: "map_of props ''filePath'' = Some (JStr p) \<longrightarrow>
      formatToolInput ''write'' props = ''filePath: '' @ p \<and>
      formatToolInput ''edit'' props = ''filePath: '' @ p \<and>
      formatToolInput ''read'' props = ''filePath: '' @ p"
    by (simp add: formatToolInput_def stringField_def getProp_def)
  have d: "name \<noteq> ''bash'' \<and> name \<noteq> ''write'' \<and> name \<noteq> ''edit'' \<and> name \<noteq> ''read'' \<longrightarrow>
      JSON_stringify_2 (JObj props) = Some (formatToolInput name props) \<and>
      formatToolInput name [(''x'', JNum 1)] =
        ''{'' @ [CHR 0x0A] @ ''  '' @ [CHR 0x22] @ ''x'' @ [CHR 0x22] @ '': 1'' @ [CHR 0x0A] @ ''}''"
    using formatToolInput_other [of name props] formatToolInput_other [of name "[(''x'', JNum 1)]"]
      stringify_x1 by auto
  from a b c d show ?thesis by blast
qed

theorem formatToolInput_summary_witness:
  "formatToolInput ''grep'' [(''x'', JNum 1)] =
     ''{'' @ [CHR 0x0A] @ ''  '' @ [CHR 0x22] @ ''x'' @ [CHR 0x22] @ '': 1'' @ [CHR 0x0A] @ ''}'' \<and>
   formatToolInput ''bash'' [(''cwd'', JStr ''/tmp''), (''command'', JStr ''ls'')] = ''command: ls'' \<and>
   formatToolInput ''edit'' [(''filePath'', JStr ''a.ts'')] = ''filePath: a.ts''"
  using formatToolInput_summary [of "[(''cwd'', JStr ''/tmp''), (''command'', JStr ''ls'')]" "''ls''" "''none''" "''grep''"]
    formatToolInput_summary [of "[(''filePath'', JStr ''a.ts'')]" "''none''" "''a.ts''" "''grep''"]
  by simp

section \<open>The tool-call gate\<close>

lemma resolveMode_truthy: "truthy (mode s) \<Longrightarrow> resolveMode ctx s = s"
  by (simp add: resolveMode_def)

lemma truthy_modes [simp]:
  "truthy (Some ''allow-all'')" "truthy (Some ''approve-all'')" "\<not> truthy None"
  by (simp_all add: truthy_def)

text \<open>
  C2. A tool call handled while the resolved policy is approve-all and no interactive UI
  is available is blocked: the handler returns a blocking instruction whose reason is the
  fixed text saying that approve-all needs an interactive confirmation. Without a UI the
  resolved policy is approve-all whenever the policy was unset or approve-all on arrival.
\<close>

theorem tool_call_without_ui_blocked:
  assumes "\<not> hasUI ctx"
  shows "(mode (resolveMode ctx s) = Some ''approve-all'' \<longrightarrow>
            fst (on_tool_call ev ctx s) =
              Some \<lparr>block = True,
                    reason = ''Tool call blocked (approve-all mode requires interactive confirmation)''\<rparr>) \<and>
         (mode s = None \<or> mode s = Some ''approve-all'' \<longrightarrow>
            mode (resolveMode ctx s) = Some ''approve-all'')"
  using assms by (auto simp: on_tool_call_def Let_def mode_resolveMode)

theorem tool_call_without_ui_blocked_witness:
  "fst (on_tool_call bashLs (headless []) approvalModeExtension) =
     Some \<lparr>block = True,
           reason = ''Tool call blocked (approve-all mode requires interactive confirmation)''\<rparr> \<and>
   mode (resolveMode (headless []) approvalModeExtension) = Some ''approve-all''"
proof -
  have h: "\<not> hasUI (headless [])" by (simp add: headless_def)
  have m: "mode approvalModeExtension = None" by (simp add: approvalModeExtension_def)
  from tool_call_without_ui_blocked [OF h, of approvalModeExtension bashLs] m
  show ?thesis by simp
qed

text \<open>The dialogs the resolution of the policy shows.\<close>

lemma dialogs_setStatus [simp]: "dialogs (setStatus k t s) = dialogs s"
  by (simp add: setStatus_def)

lemma dialogs_persistMode [simp]: "dialogs (persistMode s) = dialogs s"
  by (simp add: persistMode_def appendEntry_def split: option.splits)

lemma dialogs_showConfirm [simp]: "dialogs (showConfirm t b s) = dialogs s @ [(t, b)]"
  by (simp add: showConfirm_def)

lemma dialogs_ensureModeSelected:
  "dialogs (ensureModeSelected ctx s) =
     (if \<not> truthy (mode s) \<and> hasUI ctx then dialogs s @ [(permissionTitle, permissionBody)]
      else dialogs s)"
  by (simp add: ensureModeSelected_def Let_def)

lemma dialogs_resolveMode:
  "dialogs (resolveMode ctx s) =
     (if \<not> truthy (mode s) \<and> hasUI ctx then dialogs s @ [(permissionTitle, permissionBody)]
      else dialogs s)"
  by (simp add: resolveMode_def dialogs_ensureModeSelected)

lemma titles_differ: "approveTitle \<noteq> permissionTitle"
  by (simp add: approveTitle_def permissionTitle_def)

text \<open>
  C3. A tool call handled while the resolved policy is approve-all and an interactive UI
  is available is blocked if and only if the approval dialog is declined; the blocking
  instruction then has the reason "Blocked by user (tool: NAME)", which contains the
  tool name of the event. The approval dialog is shown in either case.
\<close>

theorem tool_call_with_ui_blocked_iff_declined:
  assumes "hasUI ctx" and "mode (resolveMode ctx s) = Some ''approve-all''"
  shows "(fst (on_tool_call ev ctx s) \<noteq> None \<longleftrightarrow> \<not> confirm ctx approveTitle (approveBody ev)) \<and>
         (\<not> confirm ctx approveTitle (approveBody ev) \<longrightarrow>
            fst (on_tool_call ev ctx s) =
              Some \<lparr>block = True, reason = ''Blocked by user (tool: '' @ toolName ev @ '')''\<rparr>) \<and>
         (\<forall>r. fst (on_tool_call ev ctx s) = Some r \<longrightarrow>
            block r \<and> (\<exists>before after. reason r = before @ toolName ev @ after)) \<and>
         dialogs (snd (on_tool_call ev ctx s)) =
           dialogs (resolveMode ctx s) @ [(approveTitle, approveBody ev)]"
proof (cases "confirm ctx approveTitle (approveBody ev)")
  case True
  with assms show ?thesis
    by (simp add: on_tool_call_def Let_def)
next
  case False
  have "\<exists>before after. ''Blocked by user (tool: '' @ toolName ev @ '')'' = before @ toolName ev @ after"
    by blast
  with False assms show ?thesis
    by (simp add: on_tool_call_def Let_def)
qed

theorem tool_call_with_ui_blocked_iff_declined_witness:
  "fst (on_tool_call bashLs (interactive answerNo []) approvalModeExtension) =
     Some \<lparr>block = True, reason = ''Blocked by user (tool: bash)''\<rparr> \<and>
   fst (on_tool_call bashLs (interactive answerApproveOnly []) approvalModeExtension) = None \<and>
   dialogs (snd (on_tool_call bashLs (interactive answerApproveOnly []) approvalModeExtension)) =
     [(permissionTitle, permissionBody), (approveTitle, approveBody bashLs)]"
proof -
  have h1: "hasUI (interactive answerNo [])" and h2: "hasUI (interactive answerApproveOnly [])"
    by (simp_all add: interactive_def)
  have m1: "mode (resolveMode (interactive answerNo []) approvalModeExtension) = Some ''approve-all''"
    by (simp add: mode_resolveMode approvalModeExtension_def interactive_def answerNo_def)
  have m2: "mode (resolveMode (interactive answerApproveOnly []) approvalModeExtension) = Some ''approve-all''"
    by (simp add: mode_resolveMode approvalModeExtension_def interactive_def answerApproveOnly_def
        permissionTitle_def approveTitle_def)
  have d: "dialogs (resolveMode (interactive answerApproveOnly []) approvalModeExtension) =
             [(permissionTitle, permissionBody)]"
    by (simp add: dialogs_resolveMode approvalModeExtension_def interactive_def)
  have n: "\<not> confirm (interactive answerNo []) approveTitle (approveBody bashLs)"
    by (simp add: interactive_def answerNo_def)
  have y: "confirm (interactive answerApproveOnly []) approveTitle (approveBody bashLs)"
    by (simp add: interactive_def answerApproveOnly_def)
  have t: "toolName bashLs = ''bash''" by (simp add: bashLs_def)
  from tool_call_with_ui_blocked_iff_declined [OF h1 m1, of bashLs] n
  have "fst (on_tool_call bashLs (interactive answerNo []) approvalModeExtension) =
     Some \<lparr>block = True, reason = ''Blocked by user (tool: '' @ toolName bashLs @ '')''\<rparr>"
    by blast
  then have a: "fst (on_tool_call bashLs (interactive answerNo []) approvalModeExtension) =
     Some \<lparr>block = True, reason = ''Blocked by user (tool: bash)''\<rparr>"
    by (simp add: t)
  from tool_call_with_ui_blocked_iff_declined [OF h2 m2, of bashLs] y d
  have b: "fst (on_tool_call bashLs (interactive answerApproveOnly []) approvalModeExtension) = None \<and>
   dialogs (snd (on_tool_call bashLs (interactive answerApproveOnly []) approvalModeExtension)) =
     [(permissionTitle, permissionBody), (approveTitle, approveBody bashLs)]"
    by simp
  from a b show ?thesis by simp
qed

text \<open>
  C5, as the code has it. A tool call handled while the resolved policy is allow-all is
  permitted: the handler returns no blocking instruction and shows no approval dialog.
  With the policy allow-all on arrival the handler has no effect at all. With the policy
  unset on arrival and resolved to allow-all by this call, the handler ends in the state
  the resolution left: the one dialog it has shown is the policy dialog.
\<close>

theorem tool_call_allow_all_permitted:
  "(mode s = Some ''allow-all'' \<longrightarrow> on_tool_call ev ctx s = (None, s)) \<and>
   (mode (resolveMode ctx s) = Some ''allow-all'' \<longrightarrow>
      fst (on_tool_call ev ctx s) = None \<and>
      snd (on_tool_call ev ctx s) = resolveMode ctx s \<and>
      dialogs (snd (on_tool_call ev ctx s)) =
        (if truthy (mode s) then dialogs s else dialogs s @ [(permissionTitle, permissionBody)]) \<and>
      (approveTitle, approveBody ev) \<notin> set (dialogs (snd (on_tool_call ev ctx s))) - set (dialogs s))"
proof -
  have a: "mode s = Some ''allow-all'' \<longrightarrow> on_tool_call ev ctx s = (None, s)"
    by (simp add: on_tool_call_def Let_def resolveMode_truthy)
  have b: "mode (resolveMode ctx s) = Some ''allow-all'' \<longrightarrow>
      fst (on_tool_call ev ctx s) = None \<and> snd (on_tool_call ev ctx s) = resolveMode ctx s"
    by (simp add: on_tool_call_def Let_def)
  have c: "mode (resolveMode ctx s) = Some ''allow-all'' \<longrightarrow>
      dialogs (resolveMode ctx s) =
        (if truthy (mode s) then dialogs s else dialogs s @ [(permissionTitle, permissionBody)])"
    by (auto simp: dialogs_resolveMode mode_resolveMode split: if_splits)
  have d: "(approveTitle, approveBody ev) \<notin> set (dialogs (resolveMode ctx s)) - set (dialogs s)"
    using titles_differ by (simp add: dialogs_resolveMode)
  show ?thesis
  proof (cases "mode (resolveMode ctx s) = Some ''allow-all''")
    case True
    with b have e: "snd (on_tool_call ev ctx s) = resolveMode ctx s" by simp
    from a b c d True show ?thesis unfolding e by simp
  next
    case False
    with a show ?thesis by simp
  qed
qed

theorem tool_call_allow_all_permitted_witness:
  "on_tool_call bashLs (headless []) (approvalModeExtension\<lparr>mode := Some ''allow-all''\<rparr>) =
     (None, approvalModeExtension\<lparr>mode := Some ''allow-all''\<rparr>) \<and>
   fst (on_tool_call bashLs (interactive answerYes []) approvalModeExtension) = None \<and>
   dialogs (snd (on_tool_call bashLs (interactive answerYes []) approvalModeExtension)) =
     [(permissionTitle, permissionBody)]"
proof -
  have m: "mode (resolveMode (interactive answerYes []) approvalModeExtension) = Some ''allow-all''"
    by (simp add: mode_resolveMode approvalModeExtension_def interactive_def answerYes_def)
  have n: "mode approvalModeExtension = None" "dialogs approvalModeExtension = []"
    by (simp_all add: approvalModeExtension_def)
  from tool_call_allow_all_permitted
         [of "approvalModeExtension\<lparr>mode := Some ''allow-all''\<rparr>" bashLs "headless []"]
  have a: "on_tool_call bashLs (headless []) (approvalModeExtension\<lparr>mode := Some ''allow-all''\<rparr>) =
     (None, approvalModeExtension\<lparr>mode := Some ''allow-all''\<rparr>)"
    by simp
  from tool_call_allow_all_permitted [of approvalModeExtension bashLs "interactive answerYes []"] m
  have "fst (on_tool_call bashLs (interactive answerYes []) approvalModeExtension) = None \<and>
   dialogs (snd (on_tool_call bashLs (interactive answerYes []) approvalModeExtension)) =
     (if truthy (mode approvalModeExtension) then dialogs approvalModeExtension
      else dialogs approvalModeExtension @ [(permissionTitle, permissionBody)])"
    by blast
  then have b: "fst (on_tool_call bashLs (interactive answerYes []) approvalModeExtension) = None \<and>
   dialogs (snd (on_tool_call bashLs (interactive answerYes []) approvalModeExtension)) =
     [(permissionTitle, permissionBody)]"
    by (simp add: n)
  from a b show ?thesis by simp
qed

text \<open>
  C5 as stated fails on the call that resolves the policy: with a UI, an unset policy and
  a user who accepts the policy dialog, the resolved policy is allow-all, yet the handler
  has shown a confirmation dialog and has appended the policy to the history.
\<close>

theorem tool_call_resolving_policy_counterexample:
  "mode (resolveMode (interactive answerYes []) approvalModeExtension) = Some ''allow-all'' \<and>
   dialogs approvalModeExtension = [] \<and>
   dialogs (snd (on_tool_call bashLs (interactive answerYes []) approvalModeExtension)) =
     [(permissionTitle, permissionBody)] \<and>
   appended approvalModeExtension = [] \<and>
   appended (snd (on_tool_call bashLs (interactive answerYes []) approvalModeExtension)) =
     [policyEntry (modePayload ''allow-all'')]"
proof -
  have m: "mode (resolveMode (interactive answerYes []) approvalModeExtension) = Some ''allow-all''"
    by (simp add: mode_resolveMode approvalModeExtension_def interactive_def answerYes_def)
  have s: "snd (on_tool_call bashLs (interactive answerYes []) approvalModeExtension) =
             resolveMode (interactive answerYes []) approvalModeExtension"
    using m by (simp add: on_tool_call_def Let_def)
  have d: "dialogs (resolveMode (interactive answerYes []) approvalModeExtension) =
             [(permissionTitle, permissionBody)]"
    by (simp add: dialogs_resolveMode approvalModeExtension_def interactive_def)
  have p: "appended (resolveMode (interactive answerYes []) approvalModeExtension) =
             [policyEntry (modePayload ''allow-all'')]"
    by (simp add: resolveMode_def ensureModeSelected_def Let_def approvalModeExtension_def
        interactive_def answerYes_def showConfirm_def setStatus_def persistMode_def appendEntry_def
        truthy_def policyEntry_def modePayload_def)
  from m s d p show ?thesis by (simp add: approvalModeExtension_def)
qed

section \<open>The mode-switch command\<close>

lemma approval_mode_command_without_ui:
  "\<not> hasUI ctx \<Longrightarrow>
     approval_mode_command ctx s =
       s\<lparr>notifications := notifications s @ [(''No interactive UI available'', ''warning'')]\<rparr>"
  by (simp add: approval_mode_command_def notify_def)

lemma approval_mode_command_with_ui:
  assumes "hasUI ctx"
  shows "approval_mode_command ctx s =
     s\<lparr>dialogs := dialogs s @ [(permissionTitle, permissionBody)],
       mode := Some (if confirm ctx permissionTitle permissionBody then ''allow-all'' else ''approve-all''),
       appended := appended s @
         [\<lparr>entryType = ''custom'', customType = Some STATE_ENTRY_TYPE,
           data = JObj [(''mode'', JStr (if confirm ctx permissionTitle permissionBody
                                         then ''allow-all'' else ''approve-all''))]\<rparr>],
       status := (status s)(''approval-mode'' \<mapsto>
         (if confirm ctx permissionTitle permissionBody
          then fg ctx ''dim'' ''approval: allow all''
          else fg ctx ''warning'' ''approval: confirm each tool'')),
       notifications := notifications s @
         [(''Permission mode set to '' @
             (if confirm ctx permissionTitle permissionBody then ''allow-all'' else ''approve-all''),
           ''info'')]\<rparr>"
  using assms
  by (simp add: approval_mode_command_def Let_def notify_def setStatus_def persistMode_def
      appendEntry_def showConfirm_def modeStatusText_def truthy_def)

text \<open>
  C6. The mode-switch command without an interactive UI notifies the user that no UI is
  available and does nothing else: the in-memory policy, the appended history, the status
  display and the dialogs are unchanged. With a UI it shows the policy dialog whatever
  the policy is, sets the chosen policy in memory, appends it to the history, sets the
  status fragment of the new policy and notifies the user of the new mode.
\<close>

theorem approval_mode_command_effects:
  "(\<not> hasUI ctx \<longrightarrow>
      notifications (approval_mode_command ctx s) =
        notifications s @ [(''No interactive UI available'', ''warning'')] \<and>
      mode (approval_mode_command ctx s) = mode s \<and>
      appended (approval_mode_command ctx s) = appended s \<and>
      status (approval_mode_command ctx s) = status s \<and>
      dialogs (approval_mode_command ctx s) = dialogs s) \<and>
   (hasUI ctx \<longrightarrow>
      (let m = (if confirm ctx permissionTitle permissionBody then ''allow-all'' else ''approve-all'')
       in dialogs (approval_mode_command ctx s) = dialogs s @ [(permissionTitle, permissionBody)] \<and>
          mode (approval_mode_command ctx s) = Some m \<and>
          appended (approval_mode_command ctx s) =
            appended s @ [\<lparr>entryType = ''custom'', customType = Some STATE_ENTRY_TYPE,
                           data = JObj [(''mode'', JStr m)]\<rparr>] \<and>
          status (approval_mode_command ctx s) =
            (status s)(''approval-mode'' \<mapsto>
               (if m = ''allow-all'' then fg ctx ''dim'' ''approval: allow all''
                else fg ctx ''warning'' ''approval: confirm each tool'')) \<and>
          notifications (approval_mode_command ctx s) =
            notifications s @ [(''Permission mode set to '' @ m, ''info'')]))"
proof (cases "hasUI ctx")
  case False
  then show ?thesis by (simp add: approval_mode_command_without_ui)
next
  case True
  then show ?thesis by (simp add: approval_mode_command_with_ui Let_def)
qed

theorem approval_mode_command_effects_witness:
  "notifications (approval_mode_command (headless []) (approvalModeExtension\<lparr>mode := Some ''allow-all''\<rparr>))
     = [(''No interactive UI available'', ''warning'')] \<and>
   mode (approval_mode_command (headless []) (approvalModeExtension\<lparr>mode := Some ''allow-all''\<rparr>))
     = Some ''allow-all'' \<and>
   appended (approval_mode_command (headless []) (approvalModeExtension\<lparr>mode := Some ''allow-all''\<rparr>))
     = [] \<and>
   dialogs (approval_mode_command (interactive answerNo []) (approvalModeExtension\<lparr>mode := Some ''allow-all''\<rparr>))
     = [(permissionTitle, permissionBody)] \<and>
   mode (approval_mode_command (interactive answerNo []) (approvalModeExtension\<lparr>mode := Some ''allow-all''\<rparr>))
     = Some ''approve-all'' \<and>
   appended (approval_mode_command (interactive answerNo []) (approvalModeExtension\<lparr>mode := Some ''allow-all''\<rparr>))
     = [policyEntry (modePayload ''approve-all'')] \<and>
   status (approval_mode_command (interactive answerNo []) (approvalModeExtension\<lparr>mode := Some ''allow-all''\<rparr>))
     ''approval-mode'' = Some ''approval: confirm each tool'' \<and>
   notifications (approval_mode_command (interactive answerNo []) (approvalModeExtension\<lparr>mode := Some ''allow-all''\<rparr>))
     = [(''Permission mode set to approve-all'', ''info'')]"
proof -
  have h: "\<not> hasUI (headless [])" by (simp add: headless_def)
  have u: "hasUI (interactive answerNo [])" by (simp add: interactive_def)
  have c: "\<not> confirm (interactive answerNo []) permissionTitle permissionBody"
    by (simp add: interactive_def answerNo_def)
  have f: "fg (interactive answerNo []) ''warning'' ''approval: confirm each tool'' =
             ''approval: confirm each tool''"
    by (simp add: interactive_def plainTheme_def)
  from approval_mode_command_effects
         [of "headless []" "approvalModeExtension\<lparr>mode := Some ''allow-all''\<rparr>"] h
  have a: "notifications (approval_mode_command (headless []) (approvalModeExtension\<lparr>mode := Some ''allow-all''\<rparr>))
     = [(''No interactive UI available'', ''warning'')] \<and>
   mode (approval_mode_command (headless []) (approvalModeExtension\<lparr>mode := Some ''allow-all''\<rparr>))
     = Some ''allow-all'' \<and>
   appended (approval_mode_command (headless []) (approvalModeExtension\<lparr>mode := Some ''allow-all''\<rparr>))
     = []"
    by (simp add: approvalModeExtension_def)
  from approval_mode_command_effects
         [of "interactive answerNo []" "approvalModeExtension\<lparr>mode := Some ''allow-all''\<rparr>"] u c f
  have b: "dialogs (approval_mode_command (interactive answerNo []) (approvalModeExtension\<lparr>mode := Some ''allow-all''\<rparr>))
     = [(permissionTitle, permissionBody)] \<and>
   mode (approval_mode_command (interactive answerNo []) (approvalModeExtension\<lparr>mode := Some ''allow-all''\<rparr>))
     = Some ''approve-all'' \<and>
   appended (approval_mode_command (interactive answerNo []) (approvalModeExtension\<lparr>mode := Some ''allow-all''\<rparr>))
     = [policyEntry (modePayload ''approve-all'')] \<and>
   status (approval_mode_command (interactive answerNo []) (approvalModeExtension\<lparr>mode := Some ''allow-all''\<rparr>))
     ''approval-mode'' = Some ''approval: confirm each tool'' \<and>
   notifications (approval_mode_command (interactive answerNo []) (approvalModeExtension\<lparr>mode := Some ''allow-all''\<rparr>))
     = [(''Permission mode set to approve-all'', ''info'')]"
    by (simp add: approvalModeExtension_def Let_def policyEntry_def modePayload_def)
  from a b show ?thesis by simp
qed

section \<open>The policy over the operations of the gate\<close>

lemma mode_dispatch_restore:
  "isRestore ev \<Longrightarrow>
     mode (dispatch ev ctx s) =
       (case lastPolicyChange (getBranch ctx) of None \<Rightarrow> mode s | Some m \<Rightarrow> Some m)"
  by (auto simp: isRestore_def mode_on_session_start mode_restoreModeFromBranch
      on_session_tree_def on_session_fork_def)

lemma mode_dispatch_other:
  "\<not> isRestore ev \<Longrightarrow>
     mode (dispatch ev ctx s) =
       (if ev = Approval_mode_command then mode (approval_mode_command ctx s)
        else mode (resolveMode ctx s))"
  by (cases ev) (simp_all add: isRestore_def mode_on_input mode_on_tool_call)

lemma validMode_dispatch:
  assumes "validMode (mode s)"
  shows "validMode (mode (dispatch ev ctx s))"
proof (cases "isRestore ev")
  case True
  show ?thesis
  proof (cases "lastPolicyChange (getBranch ctx)")
    case None
    with True assms show ?thesis by (simp add: mode_dispatch_restore)
  next
    case (Some m)
    with True lastPolicyChange_valid [OF Some] show ?thesis
      by (auto simp: mode_dispatch_restore validMode_def)
  qed
next
  case False
  with assms show ?thesis
    by (auto simp: mode_dispatch_other mode_approval_mode_command mode_resolveMode validMode_def)
qed

lemma validMode_run:
  "validMode (mode s) \<Longrightarrow> validMode (mode (run evs s))"
proof (induction evs arbitrary: s)
  case Nil
  then show ?case by simp
next
  case (Cons p evs)
  obtain ev ctx where p: "p = (ev, ctx)" by (cases p)
  from Cons.prems have "validMode (mode (dispatch ev ctx s))" by (rule validMode_dispatch)
  then have "validMode (mode (run evs (dispatch ev ctx s)))" by (rule Cons.IH)
  with p show ?case by simp
qed

lemma scanBranch_append:
  "scanBranch r (xs @ ys) = scanBranch (scanBranch r xs) ys"
  by (induction xs arbitrary: r) (auto split: jsval.splits)

lemma scanBranch_invalid_payload:
  assumes "optMember (data entry) ''mode'' \<noteq> JStr ''allow-all''"
    and "optMember (data entry) ''mode'' \<noteq> JStr ''approve-all''"
  shows "scanBranch r (entry # rest) = scanBranch r rest"
  using assms by (simp add: scanBranch_skip isPolicyChange_def del: scanBranch.simps)

text \<open>
  C10. After every sequence of operations of the approval gate, in whatever contexts, the
  in-memory policy is unset or one of the two values allow-all and approve-all; and the
  branch scan skips an entry whose payload is missing or whose mode is neither of the two:
  the scan of a branch with such an entry is the scan of the branch without it.
\<close>

theorem policy_always_valid:
  "validMode (mode (run evs approvalModeExtension)) \<and>
   (optMember (data entry) ''mode'' \<noteq> JStr ''allow-all'' \<and>
    optMember (data entry) ''mode'' \<noteq> JStr ''approve-all'' \<longrightarrow>
      scanBranch restored (before @ entry # after) = scanBranch restored (before @ after))"
proof -
  have "validMode (mode approvalModeExtension)"
    by (simp add: validMode_def approvalModeExtension_def)
  then have a: "validMode (mode (run evs approvalModeExtension))" by (rule validMode_run)
  have b: "optMember (data entry) ''mode'' \<noteq> JStr ''allow-all'' \<and>
    optMember (data entry) ''mode'' \<noteq> JStr ''approve-all'' \<longrightarrow>
      scanBranch restored (before @ entry # after) = scanBranch restored (before @ after)"
    using scanBranch_append [of restored before "entry # after"]
      scanBranch_append [of restored before after]
      scanBranch_invalid_payload [of entry "scanBranch restored before" after]
    by (simp del: scanBranch.simps)
  from a b show ?thesis by simp
qed

theorem policy_always_valid_witness:
  "validMode (mode (run [(Session_start, headless sampleBranch), (Tool_call bashLs, headless []),
                         (Approval_mode_command, interactive answerYes []),
                         (Session_fork, interactive answerYes [policyEntry (modePayload ''deny-all'')])]
                        approvalModeExtension)) \<and>
   mode (run [(Session_start, headless sampleBranch), (Tool_call bashLs, headless []),
                         (Approval_mode_command, interactive answerYes []),
                         (Session_fork, interactive answerYes [policyEntry (modePayload ''deny-all'')])]
                        approvalModeExtension) = Some ''allow-all'' \<and>
   scanBranch None ([policyEntry (modePayload ''approve-all'')] @ policyEntry (modePayload ''deny-all'') # [messageEntry])
     = scanBranch None ([policyEntry (modePayload ''approve-all'')] @ [messageEntry]) \<and>
   scanBranch None ([policyEntry (modePayload ''approve-all'')] @ policyEntry JUndefined # [messageEntry])
     = Some ''approve-all''"
proof -
  have i1: "optMember (data (policyEntry (modePayload ''deny-all''))) ''mode'' \<noteq> JStr ''allow-all'' \<and>
    optMember (data (policyEntry (modePayload ''deny-all''))) ''mode'' \<noteq> JStr ''approve-all''"
    by (simp add: policyEntry_def modePayload_def getProp_def)
  have i2: "optMember (data (policyEntry JUndefined)) ''mode'' \<noteq> JStr ''allow-all'' \<and>
    optMember (data (policyEntry JUndefined)) ''mode'' \<noteq> JStr ''approve-all''"
    by (simp add: policyEntry_def)
  have e: "scanBranch None ([policyEntry (modePayload ''approve-all'')] @ [messageEntry]) = Some ''approve-all''"
    by (simp add: sample_defs)
  have m: "mode (run [(Session_start, headless sampleBranch), (Tool_call bashLs, headless []),
                         (Approval_mode_command, interactive answerYes []),
                         (Session_fork, interactive answerYes [policyEntry (modePayload ''deny-all'')])]
                        approvalModeExtension) = Some ''allow-all''"
    by (simp add: mode_on_session_start mode_restoreModeFromBranch mode_on_tool_call mode_resolveMode
        mode_approval_mode_command on_session_fork_def sample_last
        lastPolicyChange_def isPolicyChange_def sample_defs)
  from policy_always_valid
         [of "[(Session_start, headless sampleBranch), (Tool_call bashLs, headless []),
               (Approval_mode_command, interactive answerYes []),
               (Session_fork, interactive answerYes [policyEntry (modePayload ''deny-all'')])]"
             "policyEntry (modePayload ''deny-all'')" None "[policyEntry (modePayload ''approve-all'')]" "[messageEntry]"]
    policy_always_valid
         [of "[]" "policyEntry JUndefined" None "[policyEntry (modePayload ''approve-all'')]" "[messageEntry]"]
    i1 i2 e m
  show ?thesis by (simp del: scanBranch.simps run.simps)
qed

text \<open>
  C4, as the code has it. In a session with no interactive UI the lazy resolution sets an
  unset policy to approve-all, on an input and on a tool call; a policy that is set, and
  the mode-switch command, leave the policy as it is; and the policy is allow-all after an
  operation only if it was allow-all before it, or the operation restores the policy from
  a branch whose last policy-change entry holds allow-all.
\<close>

theorem policy_without_ui:
  assumes "\<not> hasUI ctx"
  shows "(\<not> truthy (mode s) \<longrightarrow> mode (ensureModeSelected ctx s) = Some ''approve-all'') \<and>
         (\<not> isRestore ev \<and> \<not> truthy (mode s) \<and> ev \<noteq> Approval_mode_command \<longrightarrow>
            mode (dispatch ev ctx s) = Some ''approve-all'') \<and>
         (\<not> isRestore ev \<and> (truthy (mode s) \<or> ev = Approval_mode_command) \<longrightarrow>
            mode (dispatch ev ctx s) = mode s) \<and>
         (mode (dispatch ev ctx s) = Some ''allow-all'' \<longrightarrow>
            mode s = Some ''allow-all'' \<or>
            isRestore ev \<and> lastPolicyChange (getBranch ctx) = Some ''allow-all'')"
proof -
  have a: "\<not> truthy (mode s) \<longrightarrow> mode (ensureModeSelected ctx s) = Some ''approve-all''"
    using assms by (simp add: mode_ensureModeSelected)
  have b: "\<not> isRestore ev \<and> \<not> truthy (mode s) \<and> ev \<noteq> Approval_mode_command \<longrightarrow>
            mode (dispatch ev ctx s) = Some ''approve-all''"
    using assms by (simp add: mode_dispatch_other mode_resolveMode)
  have c: "\<not> isRestore ev \<and> (truthy (mode s) \<or> ev = Approval_mode_command) \<longrightarrow>
            mode (dispatch ev ctx s) = mode s"
    using assms by (auto simp: mode_dispatch_other mode_resolveMode mode_approval_mode_command)
  have d: "mode (dispatch ev ctx s) = Some ''allow-all'' \<longrightarrow>
            mode s = Some ''allow-all'' \<or>
            isRestore ev \<and> lastPolicyChange (getBranch ctx) = Some ''allow-all''"
  proof (cases "isRestore ev")
    case True
    then show ?thesis
      by (auto simp: mode_dispatch_restore split: option.splits)
  next
    case False
    with assms show ?thesis
      by (auto simp: mode_dispatch_other mode_resolveMode mode_approval_mode_command
          split: if_splits)
  qed
  from a b c d show ?thesis by blast
qed

theorem policy_without_ui_witness:
  "mode (ensureModeSelected (headless []) approvalModeExtension) = Some ''approve-all'' \<and>
   mode (dispatch Input (headless []) approvalModeExtension) = Some ''approve-all'' \<and>
   mode (dispatch Approval_mode_command (headless []) approvalModeExtension) = None \<and>
   mode (dispatch Session_tree (headless [policyEntry (modePayload ''allow-all'')]) approvalModeExtension)
     = Some ''allow-all'' \<and>
   lastPolicyChange (getBranch (headless [policyEntry (modePayload ''allow-all'')])) = Some ''allow-all''"
proof -
  have h: "\<not> hasUI (headless [])" by (simp add: headless_def)
  have h': "\<not> hasUI (headless [policyEntry (modePayload ''allow-all'')])" by (simp add: headless_def)
  have m: "mode approvalModeExtension = None" by (simp add: approvalModeExtension_def)
  have r: "\<not> isRestore Input" "\<not> isRestore Approval_mode_command" "isRestore Session_tree"
    by (simp_all add: isRestore_def)
  have t: "mode (dispatch Session_tree (headless [policyEntry (modePayload ''allow-all'')]) approvalModeExtension)
     = Some ''allow-all''"
    by (simp add: on_session_tree_def mode_restoreModeFromBranch lastPolicyChange_def
        isPolicyChange_def policyValue_def sample_defs)
  from policy_without_ui [OF h, of approvalModeExtension Input]
    policy_without_ui [OF h, of approvalModeExtension Approval_mode_command]
    policy_without_ui [OF h', of approvalModeExtension Session_tree]
    m r t
  show ?thesis by simp
qed

text \<open>
  C4 as stated fails on the restore from the branch, which does not look at the UI: a
  session start without UI on a history whose policy-change entry holds allow-all sets
  the unset policy to allow-all.
\<close>

theorem restore_without_ui_counterexample:
  "\<not> hasUI (headless [policyEntry (modePayload ''allow-all'')]) \<and>
   mode approvalModeExtension = None \<and>
   mode (on_session_start (headless [policyEntry (modePayload ''allow-all'')]) approvalModeExtension)
     = Some ''allow-all''"
  by (simp add: mode_on_session_start mode_restoreModeFromBranch lastPolicyChange_def
      isPolicyChange_def policyValue_def sample_defs approvalModeExtension_def)

section \<open>The uptime reporter's timer\<close>

lemma stopTimer_oneTimer:
  assumes "oneTimer s"
  shows "intervals (stopTimer s) = []" and "timer (stopTimer s) = None"
    and "startTimeMs (stopTimer s) = startTimeMs s" and "nextHandle (stopTimer s) = nextHandle s"
proof -
  show "intervals (stopTimer s) = []"
  proof (cases "timer s")
    case None
    with assms show ?thesis by (simp add: stopTimer_def oneTimer_def)
  next
    case (Some h)
    with assms have "map fst (intervals s) = [h]" by (simp add: oneTimer_def)
    then have "filter (\<lambda>p. fst p \<noteq> h) (intervals s) = []"
      by (cases "intervals s") auto
    with Some show ?thesis by (simp add: stopTimer_def clearInterval_def)
  qed
  show "timer (stopTimer s) = None"
    by (simp add: stopTimer_def clearInterval_def split: option.splits)
  show "startTimeMs (stopTimer s) = startTimeMs s"
    by (simp add: stopTimer_def clearInterval_def split: option.splits)
  show "nextHandle (stopTimer s) = nextHandle s"
    by (simp add: stopTimer_def clearInterval_def split: option.splits)
qed

lemma renderStatus_fields [simp]:
  "intervals (renderStatus ctx t now s) = intervals s"
  "timer (renderStatus ctx t now s) = timer s"
  "startTimeMs (renderStatus ctx t now s) = startTimeMs s"
  "nextHandle (renderStatus ctx t now s) = nextHandle s"
  "status (renderStatus ctx t now s) ''runtime-uptime'' =
     Some (fg ctx ''dim'' (''uptime '' @ formatDuration (now - t)))"
  by (simp_all add: renderStatus_def Let_def setStatus_def)

lemma startTimer_oneTimer:
  assumes "oneTimer s"
  shows "intervals (startTimer ctx now s) = [(nextHandle s, ctx)]"
    and "timer (startTimer ctx now s) = Some (nextHandle s)"
    and "startTimeMs (startTimer ctx now s) = startTimeMs s"
    and "status (startTimer ctx now s) ''runtime-uptime'' =
           Some (fg ctx ''dim'' (''uptime '' @ formatDuration (now - startTimeMs s)))"
  using stopTimer_oneTimer [OF assms]
  by (simp_all add: startTimer_def Let_def setInterval_def)

lemma oneTimer_dispatch:
  assumes "oneTimer s"
  shows "oneTimer (up_dispatch ev s)" and "startTimeMs (up_dispatch ev s) = startTimeMs s"
proof -
  show "oneTimer (up_dispatch ev s)"
  proof (cases ev)
    case (Up_session_start ctx now)
    with startTimer_oneTimer [OF assms, of ctx now] show ?thesis
      by (simp add: up_session_start_def oneTimer_def)
  next
    case (Up_session_switch ctx now)
    with startTimer_oneTimer [OF assms, of ctx now] show ?thesis
      by (simp add: up_session_switch_def oneTimer_def)
  next
    case (Up_session_shutdown ctx)
    with stopTimer_oneTimer [OF assms] show ?thesis
      by (simp add: up_session_shutdown_def oneTimer_def setStatus_def)
  next
    case (Up_command ctx now1 now2)
    with assms show ?thesis
      by (simp add: uptime_command_def Let_def oneTimer_def notify_def split: option.splits)
  next
    case (Up_tick h now)
    with assms show ?thesis
      by (auto simp: tick_def oneTimer_def split: option.splits)
  qed
  show "startTimeMs (up_dispatch ev s) = startTimeMs s"
  proof (cases ev)
    case (Up_session_start ctx now)
    with startTimer_oneTimer [OF assms, of ctx now] show ?thesis
      by (simp add: up_session_start_def)
  next
    case (Up_session_switch ctx now)
    with startTimer_oneTimer [OF assms, of ctx now] show ?thesis
      by (simp add: up_session_switch_def)
  next
    case (Up_session_shutdown ctx)
    with stopTimer_oneTimer [OF assms] show ?thesis
      by (simp add: up_session_shutdown_def setStatus_def)
  next
    case (Up_command ctx now1 now2)
    then show ?thesis
      by (simp add: uptime_command_def Let_def notify_def renderStatus_def setStatus_def)
  next
    case (Up_tick h now)
    then show ?thesis
      by (simp add: tick_def split: option.splits)
  qed
qed

lemma oneTimer_run:
  "oneTimer s \<Longrightarrow> oneTimer (up_run evs s) \<and> startTimeMs (up_run evs s) = startTimeMs s"
proof (induction evs arbitrary: s)
  case Nil
  then show ?case by simp
next
  case (Cons ev evs)
  from oneTimer_dispatch [OF Cons.prems, of ev] Cons.IH [of "up_dispatch ev s"]
  show ?case by simp
qed

lemma oneTimer_length: "oneTimer s \<Longrightarrow> length (intervals s) \<le> 1"
proof -
  assume a: "oneTimer s"
  show ?thesis
  proof (cases "timer s")
    case None
    with a show ?thesis by (simp add: oneTimer_def)
  next
    case (Some h)
    with a have "length (map fst (intervals s)) = 1" by (simp add: oneTimer_def)
    then show ?thesis by simp
  qed
qed

text \<open>
  C9. After every sequence of events of the uptime reporter the host runs at most one
  interval of the extension, the one whose handle the extension holds, and the start
  timestamp is the one taken at initialisation. Starting the display cancels the running
  interval before it arms a new one, so that only the new one is active; and a session
  switch leaves the start timestamp as it is and displays the time elapsed since
  initialisation.
\<close>

theorem uptime_single_timer:
  "oneTimer (up_run evs (runtimeUptimeExtension t0)) \<and>
   length (intervals (up_run evs (runtimeUptimeExtension t0))) \<le> 1 \<and>
   startTimeMs (up_run evs (runtimeUptimeExtension t0)) = t0 \<and>
   intervals (stopTimer (up_run evs (runtimeUptimeExtension t0))) = [] \<and>
   intervals (startTimer ctx now (up_run evs (runtimeUptimeExtension t0))) =
     [(nextHandle (up_run evs (runtimeUptimeExtension t0)), ctx)] \<and>
   timer (startTimer ctx now (up_run evs (runtimeUptimeExtension t0))) =
     Some (nextHandle (up_run evs (runtimeUptimeExtension t0))) \<and>
   startTimeMs (up_session_switch ctx now (up_run evs (runtimeUptimeExtension t0))) = t0 \<and>
   status (up_session_switch ctx now (up_run evs (runtimeUptimeExtension t0))) ''runtime-uptime'' =
     Some (fg ctx ''dim'' (''uptime '' @ formatDuration (now - t0)))"
proof -
  let ?s = "up_run evs (runtimeUptimeExtension t0)"
  have "oneTimer (runtimeUptimeExtension t0)"
    by (simp add: oneTimer_def runtimeUptimeExtension_def)
  from oneTimer_run [OF this, of evs]
  have inv: "oneTimer ?s" and st: "startTimeMs ?s = t0"
    by (simp_all add: runtimeUptimeExtension_def)
  from oneTimer_length [OF inv] stopTimer_oneTimer(1) [OF inv]
    startTimer_oneTimer [OF inv, of ctx now] inv st
  show ?thesis by (simp add: up_session_switch_def)
qed

theorem uptime_single_timer_witness:
  "intervals (up_run sampleUptimeRun (runtimeUptimeExtension 0)) = [(1, headless [])] \<and>
   timer (up_run sampleUptimeRun (runtimeUptimeExtension 0)) = Some 1 \<and>
   startTimeMs (up_run sampleUptimeRun (runtimeUptimeExtension 0)) = 0 \<and>
   status (up_session_switch (headless []) 3661000 (up_run sampleUptimeRun (runtimeUptimeExtension 0)))
     ''runtime-uptime'' = Some ''uptime 01:01:01''"
proof -
  have i: "intervals (up_run sampleUptimeRun (runtimeUptimeExtension 0)) = [(1, headless [])]"
    by (simp add: sampleUptimeRun_def runtimeUptimeExtension_def up_session_start_def
        up_session_switch_def startTimer_def stopTimer_def clearInterval_def setInterval_def
        renderStatus_def setStatus_def tick_def uptime_command_def notify_def Let_def)
  have t: "timer (up_run sampleUptimeRun (runtimeUptimeExtension 0)) = Some 1"
    by (simp add: sampleUptimeRun_def runtimeUptimeExtension_def up_session_start_def
        up_session_switch_def startTimer_def stopTimer_def clearInterval_def setInterval_def
        renderStatus_def setStatus_def tick_def uptime_command_def notify_def Let_def)
  have f: "formatDuration 3661000 = ''01:01:01''" by code_simp
  have g: "fg (headless []) ''dim'' (''uptime '' @ ''01:01:01'') = ''uptime 01:01:01''"
    by (simp add: headless_def plainTheme_def)
  from uptime_single_timer [of sampleUptimeRun 0 "headless []" 3661000] i t f g
  show ?thesis by simp
qed

end
